theory Spec2Isabelle
  imports Main "HOL-Library.AList" "HOL-Library.Sublist"
begin

section \<open>Python values used by \<open>tmuxp/server.py\<close>\<close>

text \<open>
  A Python \<open>dict\<close> from attribute names to attribute values is an association list with
  one entry per key: \<open>d[k] = v\<close> is \<open>AList.update k v d\<close> (overwrite in place, else
  append). Python 2 dictionaries have no specified iteration order; the order of the
  association list stands for whatever order the interpreter would use, and no statement
  below depends on it.
\<close>

type_synonym pydict = "(string \<times> string) list"

definition tab :: char where
  "tab = CHR 0x09"

text \<open>\<open>s.split(d)\<close> for a one-character delimiter: never returns the empty list.\<close>

fun str_split :: "char \<Rightarrow> string \<Rightarrow> string list" where
  "str_split d [] = [[]]"
| "str_split d (c # cs) =
     (if c = d then [] # str_split d cs
      else (case str_split d cs of [] \<Rightarrow> [[c]] | t # ts \<Rightarrow> (c # t) # ts))"

text \<open>\<open>sep.join(xs)\<close>.\<close>

fun str_join :: "string \<Rightarrow> string list \<Rightarrow> string" where
  "str_join sep [] = []"
| "str_join sep [x] = x"
| "str_join sep (x # y # ys) = x @ sep @ str_join sep (y # ys)"

text \<open>\<open>dict(pairs)\<close>: a later pair with the same key overwrites an earlier one.\<close>

definition dict_of_pairs :: "(string \<times> string) list \<Rightarrow> pydict" where
  "dict_of_pairs ps = fold (\<lambda>(k, v) d. AList.update k v d) ps []"

text \<open>\<open>d.get(k)\<close>: \<open>None\<close> when the key is absent.\<close>

definition dict_get :: "pydict \<Rightarrow> string \<Rightarrow> string option" where
  "dict_get d k = map_of d k"

text \<open>\<open>d.update(e)\<close>.\<close>

definition dict_update :: "pydict \<Rightarrow> pydict \<Rightarrow> pydict" where
  "dict_update d e = fold (\<lambda>(k, v) d'. AList.update k v d') e d"

text \<open>\<open>d == e\<close> on dictionaries: the same keys with the same values.\<close>

definition dict_eq :: "pydict \<Rightarrow> pydict \<Rightarrow> bool" where
  "dict_eq d e = list_all (\<lambda>k. map_of d k = map_of e k) (map fst d @ map fst e)"

subsection \<open>Rows of the external tool's output\<close>

text \<open>
  Lines 99-100 of \<open>_update_sessions\<close> (and the same two lines of \<open>_update_windows\<close>,
  \<open>_update_panes\<close>, \<open>list_clients\<close> and \<open>new_session\<close>):
  \<^verbatim>\<open>dict(zip(sformats, session.split('\t')))\<close>.
\<close>

definition zip_row :: "string list \<Rightarrow> string \<Rightarrow> pydict" where
  "zip_row fields line = dict_of_pairs (zip fields (str_split tab line))"

text \<open>
  Lines 103-105: \<^verbatim>\<open>dict((k, v) for k, v in session.iteritems() if v)\<close>; the empty
  string is the only falsy string.
\<close>

definition clear_empty :: "pydict \<Rightarrow> pydict" where
  "clear_empty d = dict_of_pairs (filter (\<lambda>(k, v). v \<noteq> []) d)"

text \<open>The two comprehensions together, over all output lines.\<close>

definition parse_rows :: "string list \<Rightarrow> string list \<Rightarrow> pydict list" where
  "parse_rows fields lines = map clear_empty (map (zip_row fields) lines)"

section \<open>The external process, the object store and the server object\<close>

text \<open>
  Modelled from the spec: the result of the process gateway (\<open>util.tmux\<close>, imported on
  line 14 and not part of this file), \<open>{exit_code, stdout: sequence of lines, stderr:
  string}\<close>. The code of this file reads \<open>stdout\<close> as a sequence of lines too: it
  iterates over it and splits each element (lines 99-100), and takes element \<open>0\<close>
  (line 499).
\<close>

record proc =
  exit_code :: int
  stdout :: "string list"
  stderr :: string

text \<open>
  Modelled from the spec: \<open>len()\<close> of the gateway's result, whose \<open>__len__\<close> is not part
  of this file; the spec reads line 323 as "the client-row count".
\<close>

definition proc_len :: "proc \<Rightarrow> nat" where
  "proc_len p = length (stdout p)"

text \<open>
  The external server is any deterministic function of the commands issued so far and the
  command issued now. Nothing is assumed about its answers.
\<close>

type_synonym gateway = "string list list \<Rightarrow> string list \<Rightarrow> proc"

text \<open>The format catalogue (module \<open>formats\<close>, imported on line 16), taken as a parameter.\<close>

record formats =
  SESSION_FORMATS :: "string list"
  WINDOW_FORMATS :: "string list"
  PANE_FORMATS :: "string list"

text \<open>
  The module's global namespace. A name that is not bound there (and is no builtin) raises
  \<open>NameError\<close> when it is read.
\<close>

datatype pyglobal = FormatList "string list" | ExceptionClass | Opaque

definition module_globals :: "(string \<times> pyglobal) list" where
  "module_globals =
     [(''absolute_import'', Opaque), (''division'', Opaque), (''print_function'', Opaque),
      (''with_statement'', Opaque), (''os'', Opaque), (''tmux'', Opaque),
      (''TmuxRelationalObject'', Opaque), (''Session'', Opaque), (''formats'', Opaque),
      (''logging'', Opaque), (''logger'', Opaque), (''Server'', Opaque)]"

datatype error =
    NameError string
  | AttributeError string
  | KeyError string
  | TypeError string
  | IndexError
  | Exception string
  | TmuxSessionExists string

type_synonym ref = nat

text \<open>
  The state the methods of \<open>Server\<close> read and write: the attributes of the instance, the
  object store (dictionaries and lists live at addresses, so that two references to one
  object see each other's writes), \<open>os.environ\<close>, and the commands issued to the external
  process, oldest first. \<open>self_clients\<close> is \<open>None\<close> while the attribute \<open>_clients\<close> does
  not exist.
\<close>

record state =
  socket_name :: "string option"
  socket_path :: "string option"
  config_file :: "string option"
  self_sessions :: ref
  self_windows :: ref
  self_panes :: ref
  self_clients :: "ref option"
  dicts :: "ref \<Rightarrow> pydict"
  lists :: "ref \<Rightarrow> ref list"
  next_dict :: ref
  next_list :: ref
  environ :: "string \<Rightarrow> string option"
  trace :: "string list list"

text \<open>Truthiness of an optional string: \<open>None\<close> and \<open>''\<close> are falsy.\<close>

definition truthy :: "string option \<Rightarrow> bool" where
  "truthy x = (case x of None \<Rightarrow> False | Some v \<Rightarrow> v \<noteq> [])"

text \<open>
  Allocation of fresh dictionary objects, one per element, at the next free addresses.
\<close>

definition alloc_dicts :: "pydict list \<Rightarrow> state \<Rightarrow> ref list \<times> state" where
  "alloc_dicts ds s =
     (let n = next_dict s in
      ([n ..< n + length ds],
       s\<lparr>dicts := (\<lambda>r. if n \<le> r \<and> r < n + length ds then ds ! (r - n) else dicts s r),
         next_dict := n + length ds\<rparr>))"

text \<open>
  \<open>Server.__init__\<close> (lines 44-57): three fresh empty lists, and the connection settings
  that are truthy; the class attributes default to \<open>None\<close>. No statement binds
  \<open>_clients\<close>.
\<close>

definition init :: "string option \<Rightarrow> string option \<Rightarrow> string option \<Rightarrow> state \<Rightarrow> state" where
  "init sn sp cf w =
     (let n = next_list w in
      w\<lparr>self_windows := n, self_panes := Suc n, self_sessions := Suc (Suc n),
        self_clients := None,
        socket_name := (if truthy sn then sn else None),
        socket_path := (if truthy sp then sp else None),
        config_file := (if truthy cf then cf else None),
        lists := (lists w)(n := [], Suc n := [], Suc (Suc n) := []),
        next_list := n + 3\<rparr>)"

text \<open>
  \<open>Server.tmux\<close> (lines 59-68): each configured flag is inserted at the front, so the
  command line reads \<open>-f\<close>, \<open>-S\<close>, \<open>-L\<close>, subcommand, arguments.
\<close>

definition command_line :: "state \<Rightarrow> string list \<Rightarrow> string list" where
  "command_line s args =
     (let a1 = (case socket_name s of
                  Some n \<Rightarrow> if n \<noteq> [] then (''-L'' @ n) # args else args
                | None \<Rightarrow> args);
          a2 = (case socket_path s of
                  Some n \<Rightarrow> if n \<noteq> [] then (''-S'' @ n) # a1 else a1
                | None \<Rightarrow> a1)
      in (case config_file s of
            Some n \<Rightarrow> if n \<noteq> [] then (''-f'' @ n) # a2 else a2
          | None \<Rightarrow> a2))"

text \<open>The call itself: the external process answers, and the command joins the trace.\<close>

definition tmux :: "gateway \<Rightarrow> string list \<Rightarrow> state \<Rightarrow> proc \<times> state" where
  "tmux gw args s =
     (gw (trace s) (command_line s args), s\<lparr>trace := trace s @ [command_line s args]\<rparr>)"

text \<open>\<^verbatim>\<open>'#{%s}' % format\<close>.\<close>

definition tmux_format :: "string \<Rightarrow> string" where
  "tmux_format f = ''#{'' @ f @ ''}''"

text \<open>
  \<^verbatim>\<open>if self._xs: self._xs[:] = []\<close> followed by \<^verbatim>\<open>self._xs.extend(new)\<close>: both
  statements write the list object at address \<open>l\<close>.
\<close>

definition clear_and_extend :: "ref \<Rightarrow> ref list \<Rightarrow> state \<Rightarrow> state" where
  "clear_and_extend l new s =
     (let s1 = (if lists s l \<noteq> [] then s\<lparr>lists := (lists s)(l := [])\<rparr> else s)
      in s1\<lparr>lists := (lists s1)(l := lists s1 l @ new)\<rparr>)"

subsection \<open>Sessions, windows and panes\<close>

text \<open>\<open>_list_sessions\<close> (lines 70-86).\<close>

definition list_sessions :: "formats \<Rightarrow> gateway \<Rightarrow> state \<Rightarrow> (error + string list) \<times> state" where
  "list_sessions F gw s =
     (let sformats = SESSION_FORMATS F;
          tmux_formats = map tmux_format sformats;
          (sessions, s1) = tmux gw [''list-sessions'', ''-F'' @ str_join [tab] tmux_formats] s
      in if stderr sessions \<noteq> [] then (Inl (Exception (stderr sessions)), s1)
         else (Inr (stdout sessions), s1))"

text \<open>\<open>_update_sessions\<close> (lines 88-113); it returns \<open>self\<close>, which is the state.\<close>

definition update_sessions :: "formats \<Rightarrow> gateway \<Rightarrow> state \<Rightarrow> (error + unit) \<times> state" where
  "update_sessions F gw s =
     (case list_sessions F gw s of
        (Inl e, s1) \<Rightarrow> (Inl e, s1)
      | (Inr sessions, s1) \<Rightarrow>
          (let sformats = SESSION_FORMATS F;
               (new_sessions, s2) = alloc_dicts (parse_rows sformats sessions) s1
           in (Inr (), clear_and_extend (self_sessions s2) new_sessions s2)))"

text \<open>\<open>_list_windows\<close> (lines 131-148).\<close>

definition list_windows :: "formats \<Rightarrow> gateway \<Rightarrow> state \<Rightarrow> (error + string list) \<times> state" where
  "list_windows F gw s =
     (let wformats = [''session_name'', ''session_id''] @ WINDOW_FORMATS F;
          tmux_formats = map tmux_format wformats;
          (windows, s1) =
             tmux gw [''list-windows'', ''-a'', ''-F'' @ str_join [tab] tmux_formats] s
      in if stderr windows \<noteq> [] then (Inl (Exception (stderr windows)), s1)
         else (Inr (stdout windows), s1))"

text \<open>\<open>_update_windows\<close> (lines 150-182).\<close>

definition update_windows :: "formats \<Rightarrow> gateway \<Rightarrow> state \<Rightarrow> (error + unit) \<times> state" where
  "update_windows F gw s =
     (case list_windows F gw s of
        (Inl e, s1) \<Rightarrow> (Inl e, s1)
      | (Inr windows, s1) \<Rightarrow>
          (let wformats = [''session_name'', ''session_id''] @ WINDOW_FORMATS F;
               (new_windows, s2) = alloc_dicts (parse_rows wformats windows) s1
           in (Inr (), clear_and_extend (self_windows s2) new_windows s2)))"

text \<open>
  \<open>_list_panes\<close> (lines 184-206): here each token carries its own trailing tab and the
  tokens are joined with the empty string.
\<close>

definition list_panes :: "formats \<Rightarrow> gateway \<Rightarrow> state \<Rightarrow> (error + string list) \<times> state" where
  "list_panes F gw s =
     (let pformats = [''session_name'', ''session_id'', ''window_index'', ''window_id'']
                       @ PANE_FORMATS F;
          tmux_formats = map (\<lambda>f. tmux_format f @ [tab]) pformats;
          (panes, s1) = tmux gw [''list-panes'', ''-a'', ''-F'' @ str_join [] tmux_formats] s
      in if stderr panes \<noteq> [] then (Inl (Exception (stderr panes)), s1)
         else (Inr (stdout panes), s1))"

text \<open>\<open>_update_panes\<close> (lines 208-242).\<close>

definition update_panes :: "formats \<Rightarrow> gateway \<Rightarrow> state \<Rightarrow> (error + unit) \<times> state" where
  "update_panes F gw s =
     (case list_panes F gw s of
        (Inl e, s1) \<Rightarrow> (Inl e, s1)
      | (Inr panes, s1) \<Rightarrow>
          (let pformats = [''session_name'', ''session_id'', ''window_index'', ''window_id'']
                            @ PANE_FORMATS F;
               (new_panes, s2) = alloc_dicts (parse_rows pformats panes) s1
           in (Inr (), clear_and_extend (self_panes s2) new_panes s2)))"

subsection \<open>Clients\<close>

text \<open>
  \<^verbatim>\<open>dict(set(new[id].items()) - set(old[id].items()))\<close> (line 281): the pairs of the
  new record that the old record does not hold.
\<close>

definition client_diff :: "pydict \<Rightarrow> pydict \<Rightarrow> pydict" where
  "client_diff new_rec old_rec =
     dict_of_pairs (filter (\<lambda>(k, v). map_of old_rec k \<noteq> Some v) new_rec)"

text \<open>\<open>xs.remove(x)\<close> on a list that holds \<open>x\<close>: the first element that compares equal goes.\<close>

fun remove_first :: "('a \<Rightarrow> bool) \<Rightarrow> 'a list \<Rightarrow> 'a list" where
  "remove_first P [] = []"
| "remove_first P (x # xs) = (if P x then xs else x # remove_first P xs)"

text \<open>
  \<^verbatim>\<open>self._clients.remove(s)\<close> (line 296): elements are compared with \<open>==\<close>, and two
  dictionaries are equal when their contents are.
\<close>

definition list_remove :: "ref \<Rightarrow> ref \<Rightarrow> state \<Rightarrow> state" where
  "list_remove c r s =
     s\<lparr>lists := (lists s)
        (c := remove_first (\<lambda>x. x = r \<or> dict_eq (dicts s x) (dicts s r)) (lists s c))\<rparr>"

text \<open>
  The first loop of \<open>list_clients\<close> (lines 269-271), taken when the collection is empty:
  \<^verbatim>\<open>client['client_tty']\<close> raises \<open>KeyError\<close> for a record without that key, after the
  records before it have been appended.
\<close>

fun append_clients :: "ref \<Rightarrow> ref list \<Rightarrow> state \<Rightarrow> (error + unit) \<times> state" where
  "append_clients c [] s = (Inr (), s)"
| "append_clients c (r # rs) s =
     (case dict_get (dicts s r) ''client_tty'' of
        None \<Rightarrow> (Inl (KeyError ''client_tty''), s)
      | Some _ \<Rightarrow> append_clients c rs (s\<lparr>lists := (lists s)(c := lists s c @ [r])\<rparr>))"

text \<open>
  The second loop (lines 292-300), \<^verbatim>\<open>for s in self._clients\<close>: the iterator holds an
  index \<open>i\<close> into the list object and stops when \<open>i\<close> reaches its current length, so a
  removal inside the body moves the following element under the index that has just been
  visited.
\<close>

function sync_clients ::
  "ref \<Rightarrow> string option list \<Rightarrow> string option list \<Rightarrow> (string option \<times> pydict) list \<Rightarrow>
     nat \<Rightarrow> state \<Rightarrow> state"
where
  "sync_clients c deleted intersect diff i s =
     (if i < length (lists s c) then
        (let r = lists s c ! i;
             s1 = (if dict_get (dicts s r) ''client_tty'' \<in> set deleted
                   then list_remove c r s else s);
             s2 = (if dict_get (dicts s1 r) ''client_tty'' \<in> set intersect
                   then (case map_of diff (dict_get (dicts s1 r) ''client_tty'') of
                           None \<Rightarrow> s1
                         | Some d \<Rightarrow> s1\<lparr>dicts := (dicts s1)(r := dict_update (dicts s1 r) d)\<rparr>)
                   else s1)
         in sync_clients c deleted intersect diff (Suc i) s2)
      else s)"
  by pat_completeness auto

lemma length_remove_first: "length (remove_first P xs) \<le> length xs"
  by (induction xs) auto

termination sync_clients
proof (relation "measure (\<lambda>(c, deleted, intersect, diff, i, s). length (lists s c) - i)")
  show "wf (measure (\<lambda>(c, deleted, intersect, diff, i, s). length (lists s c) - i))"
    by simp
next
  fix c :: ref and deleted intersect :: "string option list"
    and diff :: "(string option \<times> pydict) list" and i :: nat and s xa xb :: state
  fix r :: ref
  assume i: "i < length (lists s c)"
    and s1: "xa = (if dict_get (dicts s r) ''client_tty'' \<in> set deleted
                   then list_remove c r s else s)"
    and s2: "xb = (if dict_get (dicts xa r) ''client_tty'' \<in> set intersect
                   then (case map_of diff (dict_get (dicts xa r) ''client_tty'') of
                           None \<Rightarrow> xa
                         | Some d \<Rightarrow> xa\<lparr>dicts := (dicts xa)(r := dict_update (dicts xa r) d)\<rparr>)
                   else xa)"
  have "lists xb c = lists xa c"
    by (simp add: s2 split: option.split)
  moreover have "length (lists xa c) \<le> length (lists s c)"
    by (simp add: s1 list_remove_def length_remove_first)
  ultimately show "((c, deleted, intersect, diff, Suc i, xb), c, deleted, intersect, diff, i, s)
       \<in> measure (\<lambda>(c, deleted, intersect, diff, i, s). length (lists s c) - i)"
    using i by simp
qed

text \<open>
  \<^verbatim>\<open>{client.get('client_tty'): client for client in clients}\<close> (lines 274-275): the
  records by their \<open>client_tty\<close>; a later record with the same key replaces an earlier one.
\<close>

definition index_by_tty :: "state \<Rightarrow> ref list \<Rightarrow> (string option \<times> ref) list" where
  "index_by_tty s rs =
     fold (\<lambda>r m. AList.update (dict_get (dicts s r) ''client_tty'') r m) rs []"

text \<open>
  \<open>list_clients\<close> (lines 244-307). Line 250 reads the global \<open>CLIENT_FORMATS\<close> in the
  namespace \<open>g\<close>. Line 268 reads the attribute \<open>_clients\<close>. Line 274 indexes every new
  record with \<^verbatim>\<open>client['client_tty']\<close>, which raises \<open>KeyError\<close> for a record without
  the key. The sets \<open>created\<close>, \<open>deleted\<close> and \<open>intersect\<close> are listed in the order of the
  dictionaries they come from; Python leaves that order open.
\<close>

definition list_clients :: "(string \<times> pyglobal) list \<Rightarrow> gateway \<Rightarrow> state \<Rightarrow> (error + ref) \<times> state" where
  "list_clients g gw s =
     (case map_of g ''CLIENT_FORMATS'' of
        None \<Rightarrow> (Inl (NameError ''CLIENT_FORMATS''), s)
      | Some ExceptionClass \<Rightarrow> (Inl (TypeError ''CLIENT_FORMATS''), s)
      | Some Opaque \<Rightarrow> (Inl (TypeError ''CLIENT_FORMATS''), s)
      | Some (FormatList formats) \<Rightarrow>
          (let tmux_formats = map tmux_format formats;
               (p, s1) = tmux gw [''list-clients'', ''-F'' @ str_join [tab] tmux_formats] s;
               (new_clients, s2) = alloc_dicts (parse_rows formats (stdout p)) s1
           in case self_clients s2 of
                None \<Rightarrow> (Inl (AttributeError ''_clients''), s2)
              | Some c \<Rightarrow>
                  if lists s2 c = [] then
                    (case append_clients c new_clients s2 of
                       (Inl e, s3) \<Rightarrow> (Inl e, s3)
                     | (Inr u, s3) \<Rightarrow> (Inr c, s3))
                  else if list_ex (\<lambda>r. dict_get (dicts s2 r) ''client_tty'' = None) new_clients
                  then (Inl (KeyError ''client_tty''), s2)
                  else
                    (let new = index_by_tty s2 new_clients;
                         old = index_by_tty s2 (lists s2 c);
                         created = filter (\<lambda>k. k \<notin> set (map fst old)) (map fst new);
                         deleted = filter (\<lambda>k. k \<notin> set (map fst new)) (map fst old);
                         intersect = filter (\<lambda>k. k \<in> set (map fst old)) (map fst new);
                         diff = List.map_filter
                                  (\<lambda>k. case (map_of new k, map_of old k) of
                                          (Some rn, Some ro) \<Rightarrow>
                                             Some (k, client_diff (dicts s2 rn) (dicts s2 ro))
                                        | _ \<Rightarrow> None)
                                  intersect;
                         s3 = sync_clients c deleted intersect diff 0 s2;
                         s4 = s3\<lparr>lists := (lists s3)
                                (c := lists s3 c @ List.map_filter (map_of new) created)\<rparr>
                     in (Inr c, s4))))"

text \<open>\<open>has_clients\<close> (lines 321-326).\<close>

definition has_clients :: "gateway \<Rightarrow> state \<Rightarrow> bool \<times> state" where
  "has_clients gw s =
     (let (p, s1) = tmux gw [''list-clients''] s
      in (if proc_len p > 1 then True else False, s1))"

subsection \<open>Session lifecycle\<close>

text \<open>
  \<open>has_session\<close> (lines 354-370): \<open>in\<close> on the sequence of output lines asks whether one
  of the lines is the marker.
\<close>

definition has_session :: "gateway \<Rightarrow> string \<Rightarrow> state \<Rightarrow> bool \<times> state" where
  "has_session gw target_session s =
     (let (p, s1) = tmux gw [''has-session'', ''-t'' @ target_session] s
      in (if ''failed to connect to server'' \<in> set (stdout p) then False
          else if ''session not found'' \<in> set (stdout p) then False
          else True, s1))"

text \<open>
  The spec's wording of the same test, for comparison: "the response text contains the
  marker", that is, the marker occurs somewhere inside one of the output lines.
\<close>

definition response_contains :: "string \<Rightarrow> string list \<Rightarrow> bool" where
  "response_contains marker out = list_ex (\<lambda>line. sublist marker line) out"

text \<open>\<open>kill_session\<close> (lines 378-392).\<close>

definition kill_session :: "formats \<Rightarrow> gateway \<Rightarrow> string \<Rightarrow> state \<Rightarrow> (error + unit) \<times> state" where
  "kill_session F gw target_session s =
     (let (p, s1) = tmux gw [''kill-session'', ''-t'' @ target_session] s
      in if stderr p \<noteq> [] then (Inl (Exception (stderr p)), s1)
         else update_sessions F gw s1)"

text \<open>
  Modelled from the spec: the session wrapper (\<open>Session\<close>, imported on line 15 and not
  part of this file), "a session wrapper bound to this server from the parsed record";
  the state is the server, so the wrapper is the record.
\<close>

definition Session :: "pydict \<Rightarrow> pydict" where
  "Session session_info = session_info"

text \<open>
  \<open>new_session\<close>, lines 473-515: what follows the existence check. \<open>stdout[0]\<close> raises
  \<open>IndexError\<close> on an empty output.
\<close>

definition create_session ::
  "formats \<Rightarrow> gateway \<Rightarrow> string \<Rightarrow> bool \<Rightarrow> state \<Rightarrow> (error + pydict) \<times> state" where
  "create_session F gw session_name attach s =
     (let sformats = SESSION_FORMATS F;
          tmux_formats = map tmux_format sformats;
          env = environ s ''TMUX'';
          s1 = (if truthy env then s\<lparr>environ := (environ s)(''TMUX'' := None)\<rparr> else s);
          tmux_args = [''-s'' @ session_name, ''-P'', ''-F'' @ str_join [tab] tmux_formats]
                        @ (if \<not> attach then [''-d''] else []);
          (session_info, s2) = tmux gw (''new-session'' # tmux_args) s1
      in if stderr session_info \<noteq> [] then (Inl (Exception (stderr session_info)), s2)
         else (case stdout session_info of
                 [] \<Rightarrow> (Inl IndexError, s2)
               | line # rest \<Rightarrow>
                   (let s3 = (if truthy env then s2\<lparr>environ := (environ s2)(''TMUX'' := env)\<rparr>
                              else s2);
                        session = Session (clear_empty (zip_row sformats line))
                    in case update_sessions F gw s3 of
                         (Inl e, s4) \<Rightarrow> (Inl e, s4)
                       | (Inr u, s4) \<Rightarrow> (Inr session, s4))))"

text \<open>
  \<open>new_session\<close> (lines 426-515). Line 470 reads the global \<open>TmuxSessionExists\<close> in the
  namespace \<open>g\<close> before it can raise it.
\<close>

definition new_session ::
  "(string \<times> pyglobal) list \<Rightarrow> formats \<Rightarrow> gateway \<Rightarrow> string \<Rightarrow> bool \<Rightarrow> bool \<Rightarrow> state \<Rightarrow>
     (error + pydict) \<times> state" where
  "new_session g F gw session_name kill_session_flag attach s =
     (let (found, s1) = has_session gw session_name s
      in if found then
           (if kill_session_flag then
              (let (p, s2) = tmux gw [''kill-session'', ''-t'' @ session_name] s1
               in create_session F gw session_name attach s2)
            else
              (case map_of g ''TmuxSessionExists'' of
                 None \<Rightarrow> (Inl (NameError ''TmuxSessionExists''), s1)
               | Some ExceptionClass \<Rightarrow>
                   (Inl (TmuxSessionExists (''Session named '' @ session_name @ '' exists'')), s1)
               | Some (FormatList fs) \<Rightarrow> (Inl (TypeError ''TmuxSessionExists''), s1)
               | Some Opaque \<Rightarrow> (Inl (TypeError ''TmuxSessionExists''), s1)))
         else create_session F gw session_name attach s1)"

section \<open>Concrete instances\<close>

text \<open>
  A state before any \<open>Server\<close> exists, a scripted external process that answers the
  \<open>n\<close>-th command with the \<open>n\<close>-th entry of a list, and a small format catalogue. They
  instantiate the theorems below.
\<close>

definition empty_world :: state where
  "empty_world =
     \<lparr>socket_name = None, socket_path = None, config_file = None,
      self_sessions = 0, self_windows = 0, self_panes = 0, self_clients = None,
      dicts = (\<lambda>r. []), lists = (\<lambda>r. []), next_dict = 0, next_list = 0,
      environ = (\<lambda>k. None), trace = []\<rparr>"

definition succeeded :: "string list \<Rightarrow> proc" where
  "succeeded out = \<lparr>exit_code = 0, stdout = out, stderr = []\<rparr>"

definition failed :: "string \<Rightarrow> proc" where
  "failed msg = \<lparr>exit_code = 1, stdout = [], stderr = msg\<rparr>"

definition scripted :: "proc list \<Rightarrow> gateway" where
  "scripted ps hist args = (if length hist < length ps then ps ! length hist else succeeded [])"

definition small_formats :: formats where
  "small_formats =
     \<lparr>SESSION_FORMATS = [''session_name'', ''session_id''],
      WINDOW_FORMATS = [''window_id''],
      PANE_FORMATS = [''pane_id'']\<rparr>"

definition server0 :: state where
  "server0 = init None None None empty_world"

section \<open>Dictionaries built from pairs\<close>

lemma map_of_fold_update:
  "map_of (fold (\<lambda>(k, v) d. AList.update k v d) ps d) = map_of d ++ map_of (rev ps)"
proof (induction ps arbitrary: d)
  case Nil
  show ?case by simp
next
  case (Cons p ps)
  obtain k v where p: "p = (k, v)" by (cases p)
  show ?case
    by (rule ext) (simp add: p Cons.IH update_conv' map_add_def split: option.split)
qed

lemma distinct_fold_update:
  "distinct (map fst d) \<Longrightarrow> distinct (map fst (fold (\<lambda>(k, v) d. AList.update k v d) ps d))"
  by (induction ps arbitrary: d) (auto simp: distinct_update)

lemma map_of_dict_of_pairs: "map_of (dict_of_pairs ps) = map_of (rev ps)"
  by (simp add: dict_of_pairs_def map_of_fold_update)

lemma distinct_dict_of_pairs: "distinct (map fst (dict_of_pairs ps))"
  by (simp add: dict_of_pairs_def distinct_fold_update)

lemma map_of_rev_distinct: "distinct (map fst xs) \<Longrightarrow> map_of (rev xs) = map_of xs"
  by (rule map_of_inject_set[THEN iffD2]) (simp_all add: rev_map[symmetric])

lemma map_of_filter_nonempty:
  "distinct (map fst d) \<Longrightarrow>
   map_of (filter (\<lambda>(k, v). v \<noteq> []) d) k =
     (case map_of d k of None \<Rightarrow> None | Some v \<Rightarrow> if v = [] then None else Some v)"
proof (induction d)
  case Nil
  show ?case by simp
next
  case (Cons p d)
  obtain k' v' where p: "p = (k', v')" by (cases p)
  from Cons.prems have notin: "k' \<notin> fst ` set d" and dist: "distinct (map fst d)"
    by (simp_all add: p)
  from notin have none: "map_of d k' = None"
    by (simp add: map_of_eq_None_iff)
  show ?case
    using Cons.IH[OF dist] none by (auto simp: p)
qed

lemma map_of_clear_empty:
  assumes "distinct (map fst d)"
  shows "map_of (clear_empty d) k =
     (case map_of d k of None \<Rightarrow> None | Some v \<Rightarrow> if v = [] then None else Some v)"
proof -
  have "distinct (map fst (filter (\<lambda>(k, v). v \<noteq> []) d))"
    using assms by (simp add: distinct_map_filter)
  then have "map_of (clear_empty d) = map_of (filter (\<lambda>(k, v). v \<noteq> []) d)"
    by (simp add: clear_empty_def map_of_dict_of_pairs map_of_rev_distinct)
  then show ?thesis
    by (simp add: map_of_filter_nonempty[OF assms])
qed

lemma distinct_zip_row: "distinct (map fst (zip_row flds line))"
  by (simp add: zip_row_def distinct_dict_of_pairs)

lemma map_of_zip_row:
  "map_of (zip_row flds line) = map_of (rev (zip flds (str_split tab line)))"
  by (simp add: zip_row_def map_of_dict_of_pairs)

lemma parsed_row_lookup:
  "dict_get (clear_empty (zip_row flds line)) k =
     (case map_of (rev (zip flds (str_split tab line))) k of
        None \<Rightarrow> None | Some v \<Rightarrow> if v = [] then None else Some v)"
  by (simp add: dict_get_def map_of_clear_empty[OF distinct_zip_row] map_of_zip_row)

lemma parsed_row_no_empty:
  "dict_get (clear_empty (zip_row flds line)) k = Some v \<Longrightarrow> v \<noteq> []"
  by (auto simp: parsed_row_lookup split: option.splits if_splits)

lemma map_of_zip_positional:
  assumes "distinct flds" "i < length flds" "i < length toks"
  shows "map_of (rev (zip flds toks)) (flds ! i) = Some (toks ! i)"
proof -
  let ?n = "min (length flds) (length toks)"
  have z: "zip flds toks = zip (take ?n flds) (take ?n toks)"
    by (simp add: zip_eq_conv take_zip[symmetric])
  have d: "distinct (map fst (zip flds toks))"
    using assms(1) by (simp add: map_fst_zip_take)
  have "map_of (zip (take ?n flds) (take ?n toks)) (take ?n flds ! i) = Some (take ?n toks ! i)"
    using assms by (intro map_of_zip_nth) auto
  then show ?thesis
    using assms by (simp add: map_of_rev_distinct[OF d] z[symmetric])
qed

lemma parsed_row_positional:
  assumes "distinct flds" "i < length flds" "i < length (str_split tab line)"
  shows "dict_get (clear_empty (zip_row flds line)) (flds ! i) =
     (if str_split tab line ! i = [] then None else Some (str_split tab line ! i))"
  by (simp add: parsed_row_lookup map_of_zip_positional[OF assms])

lemma parsed_row_outside:
  assumes "k \<notin> set (take (length (str_split tab line)) flds)"
  shows "dict_get (clear_empty (zip_row flds line)) k = None"
proof -
  have "k \<notin> fst ` set (rev (zip flds (str_split tab line)))"
    using assms
    by (cases "length flds \<le> length (str_split tab line)")
       (simp_all add: map_fst_zip_take set_map[symmetric] min_def del: set_map)
  then have "map_of (rev (zip flds (str_split tab line))) k = None"
    by (rule map_of_eq_None_iff[THEN iffD2])
  then show ?thesis by (simp add: parsed_row_lookup)
qed

section \<open>Parsing rows (C4)\<close>

text \<open>
  C4. Parsing maps every output line to one record. For a catalogue of distinct field
  names, the field at position \<open>i\<close> is paired with the \<open>i\<close>-th tab-separated token of
  the line; the pair is dropped when the token is empty and stored otherwise; a name
  beyond the tokens of the line is absent. No record ever holds an empty value, whatever
  the field list. The two rows of the spec parse as it says:
  \<open>a\tb\tc\<close> gives \<open>{f1: a, f2: b, f3: c}\<close> and \<open>a\t\tc\<close> gives \<open>{f1: a, f3: c}\<close>.
\<close>

theorem parse_rows_positional_drop_empty:
  "parse_rows flds lines = map (\<lambda>line. clear_empty (zip_row flds line)) lines
   \<and> (\<forall>row \<in> set (parse_rows flds lines). \<forall>k v. dict_get row k = Some v \<longrightarrow> v \<noteq> [])
   \<and> (distinct flds \<longrightarrow>
        (\<forall>line \<in> set lines. \<forall>i. i < length flds \<and> i < length (str_split tab line) \<longrightarrow>
           dict_get (clear_empty (zip_row flds line)) (flds ! i) =
             (if str_split tab line ! i = [] then None else Some (str_split tab line ! i))))
   \<and> (\<forall>line \<in> set lines. \<forall>k. k \<notin> set (take (length (str_split tab line)) flds) \<longrightarrow>
         dict_get (clear_empty (zip_row flds line)) k = None)
   \<and> parse_rows [''f1'', ''f2'', ''f3''] [''a'' @ [tab] @ ''b'' @ [tab] @ ''c'']
        = [[(''f1'', ''a''), (''f2'', ''b''), (''f3'', ''c'')]]
   \<and> parse_rows [''f1'', ''f2'', ''f3''] [''a'' @ [tab] @ [tab] @ ''c'']
        = [[(''f1'', ''a''), (''f3'', ''c'')]]"
proof (intro conjI)
  show "parse_rows flds lines = map (\<lambda>line. clear_empty (zip_row flds line)) lines"
    by (simp add: parse_rows_def)
  show "\<forall>row \<in> set (parse_rows flds lines). \<forall>k v. dict_get row k = Some v \<longrightarrow> v \<noteq> []"
    by (auto simp: parse_rows_def dest: parsed_row_no_empty)
  show "distinct flds \<longrightarrow>
        (\<forall>line \<in> set lines. \<forall>i. i < length flds \<and> i < length (str_split tab line) \<longrightarrow>
           dict_get (clear_empty (zip_row flds line)) (flds ! i) =
             (if str_split tab line ! i = [] then None else Some (str_split tab line ! i)))"
    using parsed_row_positional by blast
  show "\<forall>line \<in> set lines. \<forall>k. k \<notin> set (take (length (str_split tab line)) flds) \<longrightarrow>
         dict_get (clear_empty (zip_row flds line)) k = None"
    using parsed_row_outside by blast
  show "parse_rows [''f1'', ''f2'', ''f3''] [''a'' @ [tab] @ ''b'' @ [tab] @ ''c'']
        = [[(''f1'', ''a''), (''f2'', ''b''), (''f3'', ''c'')]]"
    by (simp add: parse_rows_def zip_row_def clear_empty_def dict_of_pairs_def tab_def)
  show "parse_rows [''f1'', ''f2'', ''f3''] [''a'' @ [tab] @ [tab] @ ''c'']
        = [[(''f1'', ''a''), (''f3'', ''c'')]]"
    by (simp add: parse_rows_def zip_row_def clear_empty_def dict_of_pairs_def tab_def)
qed

text \<open>
  The theorem at the catalogue \<open>[tty, w, h]\<close> and the line \<open>/dev/ttys1\t\t24\<close>: the
  second field is dropped, the first and third are stored by position.
\<close>

theorem parse_rows_positional_drop_empty_witness:
  "distinct [''tty'', ''w'', ''h'']
   \<and> parse_rows [''tty'', ''w'', ''h''] [''/dev/ttys1'' @ [tab] @ [tab] @ ''24'']
        = [[(''tty'', ''/dev/ttys1''), (''h'', ''24'')]]
   \<and> dict_get (clear_empty (zip_row [''tty'', ''w'', ''h'']
         (''/dev/ttys1'' @ [tab] @ [tab] @ ''24''))) ''w'' = None
   \<and> dict_get (clear_empty (zip_row [''tty'', ''w'', ''h'']
         (''/dev/ttys1'' @ [tab] @ [tab] @ ''24''))) ''h'' = Some ''24''"
  using parse_rows_positional_drop_empty
    [of "[''tty'', ''w'', ''h'']" "[''/dev/ttys1'' @ [tab] @ [tab] @ ''24'']"]
  by (simp add: parse_rows_def zip_row_def clear_empty_def dict_of_pairs_def tab_def dict_get_def)

section \<open>Replacing a collection\<close>

lemma clear_and_extend_eq: "clear_and_extend l new s = s\<lparr>lists := (lists s)(l := new)\<rparr>"
  by (simp add: clear_and_extend_def Let_def)

lemma map_fresh_cells:
  "map (\<lambda>r. if n \<le> r \<and> r < n + length ds then ds ! (r - n) else f r) [n ..< n + length ds] = ds"
  by (rule nth_equalityI) simp_all

lemma length_parse_rows: "length (parse_rows fs ls) = length ls"
  by (simp add: parse_rows_def)

lemma list_sessions_fields:
  assumes "list_sessions F gw s = (r, t)"
  shows "self_sessions t = self_sessions s" and "dicts t = dicts s" and "lists t = lists s"
    and "next_dict t = next_dict s" and "environ t = environ s"
  using assms by (auto simp: list_sessions_def tmux_def Let_def split: if_splits)

lemma list_windows_fields:
  assumes "list_windows F gw s = (r, t)"
  shows "self_windows t = self_windows s" and "dicts t = dicts s" and "lists t = lists s"
    and "next_dict t = next_dict s"
  using assms by (auto simp: list_windows_def tmux_def Let_def split: if_splits)

lemma list_panes_fields:
  assumes "list_panes F gw s = (r, t)"
  shows "self_panes t = self_panes s" and "dicts t = dicts s" and "lists t = lists s"
    and "next_dict t = next_dict s"
  using assms by (auto simp: list_panes_def tmux_def Let_def split: if_splits)

lemma list_sessions_error:
  assumes "list_sessions F gw s = (Inl e, t)"
  shows "\<exists>msg. e = Exception msg \<and> msg \<noteq> []"
  using assms by (auto simp: list_sessions_def tmux_def Let_def split: if_splits)

lemma result_cases:
  obtains (ok) out t where "f = (Inr out, t)" | (fail) e t where "f = (Inl e, t)"
  by (cases f) (metis sum.exhaust_sel)

lemma update_sessions_ok:
  assumes "list_sessions F gw s = (Inr out, t)"
  shows "update_sessions F gw s =
           (Inr (),
            t\<lparr>dicts := (\<lambda>r. if next_dict t \<le> r \<and> r < next_dict t + length out
                      then parse_rows (SESSION_FORMATS F) out ! (r - next_dict t) else dicts t r),
              next_dict := next_dict t + length out,
              lists := (lists t)(self_sessions t := [next_dict t ..< next_dict t + length out])\<rparr>)"
  using assms
  by (simp add: update_sessions_def alloc_dicts_def Let_def clear_and_extend_eq length_parse_rows)

lemma update_windows_ok:
  assumes "list_windows F gw s = (Inr out, t)"
  shows "update_windows F gw s =
           (Inr (),
            t\<lparr>dicts := (\<lambda>r. if next_dict t \<le> r \<and> r < next_dict t + length out
                      then parse_rows (''session_name'' # ''session_id'' # WINDOW_FORMATS F) out
                             ! (r - next_dict t)
                      else dicts t r),
              next_dict := next_dict t + length out,
              lists := (lists t)(self_windows t := [next_dict t ..< next_dict t + length out])\<rparr>)"
  using assms
  by (simp add: update_windows_def alloc_dicts_def Let_def clear_and_extend_eq length_parse_rows)

lemma update_panes_ok:
  assumes "list_panes F gw s = (Inr out, t)"
  shows "update_panes F gw s =
           (Inr (),
            t\<lparr>dicts := (\<lambda>r. if next_dict t \<le> r \<and> r < next_dict t + length out
                      then parse_rows (''session_name'' # ''session_id'' # ''window_index'' #
                                        ''window_id'' # PANE_FORMATS F) out
                             ! (r - next_dict t)
                      else dicts t r),
              next_dict := next_dict t + length out,
              lists := (lists t)(self_panes t := [next_dict t ..< next_dict t + length out])\<rparr>)"
  using assms
  by (simp add: update_panes_def alloc_dicts_def Let_def clear_and_extend_eq length_parse_rows)

lemma update_sessions_fail:
  assumes "list_sessions F gw s = (Inl e, t)"
  shows "update_sessions F gw s = (Inl e, t)"
  using assms by (simp add: update_sessions_def)

lemma update_windows_fail:
  assumes "list_windows F gw s = (Inl e, t)"
  shows "update_windows F gw s = (Inl e, t)"
  using assms by (simp add: update_windows_def)

lemma update_panes_fail:
  assumes "list_panes F gw s = (Inl e, t)"
  shows "update_panes F gw s = (Inl e, t)"
  using assms by (simp add: update_panes_def)

lemma update_sessions_attr: "self_sessions (snd (update_sessions F gw s)) = self_sessions s"
proof (cases "list_sessions F gw s" rule: result_cases)
  case (ok out t)
  then show ?thesis by (simp add: update_sessions_ok list_sessions_fields)
next
  case (fail e t)
  then show ?thesis by (simp add: update_sessions_fail list_sessions_fields)
qed

lemma update_windows_attr: "self_windows (snd (update_windows F gw s)) = self_windows s"
proof (cases "list_windows F gw s" rule: result_cases)
  case (ok out t)
  then show ?thesis by (simp add: update_windows_ok list_windows_fields)
next
  case (fail e t)
  then show ?thesis by (simp add: update_windows_fail list_windows_fields)
qed

lemma update_panes_attr: "self_panes (snd (update_panes F gw s)) = self_panes s"
proof (cases "list_panes F gw s" rule: result_cases)
  case (ok out t)
  then show ?thesis by (simp add: update_panes_ok list_panes_fields)
next
  case (fail e t)
  then show ?thesis by (simp add: update_panes_fail list_panes_fields)
qed

lemma update_sessions_contents:
  assumes "list_sessions F gw s = (Inr out, t)"
  shows "fst (update_sessions F gw s) = Inr ()"
    and "map (dicts (snd (update_sessions F gw s)))
           (lists (snd (update_sessions F gw s)) (self_sessions s)) =
         parse_rows (SESSION_FORMATS F) out"
  using map_fresh_cells[of "next_dict t" "parse_rows (SESSION_FORMATS F) out" "dicts t"]
  by (simp_all add: update_sessions_ok[OF assms] list_sessions_fields[OF assms] length_parse_rows)

lemma update_windows_contents:
  assumes "list_windows F gw s = (Inr out, t)"
  shows "fst (update_windows F gw s) = Inr ()"
    and "map (dicts (snd (update_windows F gw s)))
           (lists (snd (update_windows F gw s)) (self_windows s)) =
         parse_rows ([''session_name'', ''session_id''] @ WINDOW_FORMATS F) out"
  using map_fresh_cells[of "next_dict t"
      "parse_rows (''session_name'' # ''session_id'' # WINDOW_FORMATS F) out" "dicts t"]
  by (simp_all add: update_windows_ok[OF assms] list_windows_fields[OF assms] length_parse_rows)

lemma update_panes_contents:
  assumes "list_panes F gw s = (Inr out, t)"
  shows "fst (update_panes F gw s) = Inr ()"
    and "map (dicts (snd (update_panes F gw s)))
           (lists (snd (update_panes F gw s)) (self_panes s)) =
         parse_rows ([''session_name'', ''session_id'', ''window_index'', ''window_id'']
                       @ PANE_FORMATS F) out"
  using map_fresh_cells[of "next_dict t"
      "parse_rows (''session_name'' # ''session_id'' # ''window_index'' # ''window_id''
                       # PANE_FORMATS F) out" "dicts t"]
  by (simp_all add: update_panes_ok[OF assms] list_panes_fields[OF assms] length_parse_rows)

lemma update_sessions_error:
  assumes "fst (update_sessions F gw s) = Inl e"
  shows "\<exists>msg. e = Exception msg \<and> msg \<noteq> []"
proof (cases "list_sessions F gw s" rule: result_cases)
  case (ok out t)
  then show ?thesis using assms by (simp add: update_sessions_ok)
next
  case (fail e' t)
  then show ?thesis using assms list_sessions_error[OF fail] by (simp add: update_sessions_fail)
qed

section \<open>Refresh writes the list object in place (C10)\<close>

text \<open>
  C10. A refresh of the sessions, windows or panes never rebinds the attribute: after
  \<open>_update_sessions\<close>, \<open>_update_windows\<close> and \<open>_update_panes\<close>, whether they return or
  raise, \<open>_sessions\<close>, \<open>_windows\<close> and \<open>_panes\<close> hold the address they held before. When
  the listing succeeds with output \<open>out\<close>, the refresh returns and the list object at the
  address taken before the call holds exactly the records parsed from \<open>out\<close>: a reference
  to the collection kept from before the refresh sees the new snapshot.
\<close>

theorem refresh_writes_list_object_in_place:
  "self_sessions (snd (update_sessions F gw s)) = self_sessions s
   \<and> self_windows (snd (update_windows F gw s)) = self_windows s
   \<and> self_panes (snd (update_panes F gw s)) = self_panes s
   \<and> (\<forall>out t. list_sessions F gw s = (Inr out, t) \<longrightarrow>
         fst (update_sessions F gw s) = Inr () \<and>
         map (dicts (snd (update_sessions F gw s)))
           (lists (snd (update_sessions F gw s)) (self_sessions s)) =
         parse_rows (SESSION_FORMATS F) out)
   \<and> (\<forall>out t. list_windows F gw s = (Inr out, t) \<longrightarrow>
         fst (update_windows F gw s) = Inr () \<and>
         map (dicts (snd (update_windows F gw s)))
           (lists (snd (update_windows F gw s)) (self_windows s)) =
         parse_rows ([''session_name'', ''session_id''] @ WINDOW_FORMATS F) out)
   \<and> (\<forall>out t. list_panes F gw s = (Inr out, t) \<longrightarrow>
         fst (update_panes F gw s) = Inr () \<and>
         map (dicts (snd (update_panes F gw s)))
           (lists (snd (update_panes F gw s)) (self_panes s)) =
         parse_rows ([''session_name'', ''session_id'', ''window_index'', ''window_id'']
                       @ PANE_FORMATS F) out)"
proof (intro conjI allI impI)
  show "self_sessions (snd (update_sessions F gw s)) = self_sessions s"
    by (rule update_sessions_attr)
  show "self_windows (snd (update_windows F gw s)) = self_windows s"
    by (rule update_windows_attr)
  show "self_panes (snd (update_panes F gw s)) = self_panes s"
    by (rule update_panes_attr)
qed (simp_all add: update_sessions_contents update_windows_contents update_panes_contents)

section \<open>Successive refreshes of the sessions (C5)\<close>

text \<open>
  C5. When a refresh of the sessions has returned and the next listing succeeds with
  output \<open>out2\<close>, the second refresh returns too, the collection then holds exactly the
  records parsed from \<open>out2\<close> (nothing of the first result is merged in), and no record
  object of the collection after the second refresh is a record object of the collection
  after the first: the addresses are disjoint. This holds whether or not the two outputs
  differ.
\<close>

theorem successive_refresh_keeps_only_second:
  assumes first: "update_sessions F gw s = (Inr (), s1)"
    and second: "list_sessions F gw s1 = (Inr out2, t)"
  shows "fst (update_sessions F gw s1) = Inr ()
     \<and> map (dicts (snd (update_sessions F gw s1)))
         (lists (snd (update_sessions F gw s1)) (self_sessions (snd (update_sessions F gw s1))))
       = parse_rows (SESSION_FORMATS F) out2
     \<and> set (lists (snd (update_sessions F gw s1)) (self_sessions (snd (update_sessions F gw s1))))
         \<inter> set (lists s1 (self_sessions s1)) = {}
     \<and> self_sessions (snd (update_sessions F gw s1)) = self_sessions s"
proof -
  obtain out1 t1 where l1: "list_sessions F gw s = (Inr out1, t1)"
    using first by (cases "list_sessions F gw s" rule: result_cases) (auto simp: update_sessions_fail)
  have s1: "lists s1 (self_sessions s) = [next_dict t1 ..< next_dict t1 + length out1]"
      "next_dict s1 = next_dict t1 + length out1" "self_sessions s1 = self_sessions s"
    using first by (auto simp: update_sessions_ok[OF l1] list_sessions_fields[OF l1])
  have attr: "self_sessions (snd (update_sessions F gw s1)) = self_sessions s"
    by (simp add: update_sessions_attr s1(3))
  have l2: "lists (snd (update_sessions F gw s1)) (self_sessions s)
              = [next_dict s1 ..< next_dict s1 + length out2]"
    by (simp add: update_sessions_ok[OF second] list_sessions_fields[OF second] s1(3))
  have disj: "set (lists (snd (update_sessions F gw s1)) (self_sessions s))
                \<inter> set (lists s1 (self_sessions s)) = {}"
    by (auto simp: l2 s1(1,2))
  show ?thesis
    using update_sessions_contents[OF second] disj
    by (simp add: attr s1(3))
qed

section \<open>Killing a session (C7)\<close>

text \<open>
  C7. \<open>kill_session\<close> raises the execution error that carries the stderr text of the
  kill subcommand if and only if that text is non-empty; in that case nothing but the
  command itself has happened. When the text is empty, \<open>kill_session\<close> is a full
  \<open>_update_sessions\<close> on the state the kill left: it returns what the refresh returns,
  and an error of the refresh itself (the listing's own stderr) is passed on.
\<close>

theorem kill_session_raises_iff_stderr:
  "(fst (kill_session F gw target s)
      = Inl (Exception (stderr (fst (tmux gw [''kill-session'', ''-t'' @ target] s)))))
     = (stderr (fst (tmux gw [''kill-session'', ''-t'' @ target] s)) \<noteq> [])
   \<and> (stderr (fst (tmux gw [''kill-session'', ''-t'' @ target] s)) \<noteq> [] \<longrightarrow>
        snd (kill_session F gw target s) = snd (tmux gw [''kill-session'', ''-t'' @ target] s))
   \<and> (stderr (fst (tmux gw [''kill-session'', ''-t'' @ target] s)) = [] \<longrightarrow>
        kill_session F gw target s
          = update_sessions F gw (snd (tmux gw [''kill-session'', ''-t'' @ target] s)))"
proof -
  let ?p = "fst (tmux gw [''kill-session'', ''-t'' @ target] s)"
  let ?s1 = "snd (tmux gw [''kill-session'', ''-t'' @ target] s)"
  have k: "kill_session F gw target s =
            (if stderr ?p \<noteq> [] then (Inl (Exception (stderr ?p)), ?s1)
             else update_sessions F gw ?s1)"
    by (simp add: kill_session_def split: prod.split)
  have "fst (update_sessions F gw ?s1) \<noteq> Inl (Exception [])"
    using update_sessions_error[of F gw ?s1 "Exception []"] by auto
  then show ?thesis
    by (auto simp: k)
qed

section \<open>Probing for a session (C6)\<close>

text \<open>
  C6, as the spec words it, fails on the code: the probe answers the line
  \<open>session not found: foo\<close>, the response text contains the marker
  \<open>session not found\<close>, and \<open>has_session\<close> still returns true, because \<open>in\<close> on a
  sequence of lines compares whole lines.
\<close>

theorem has_session_substring_counterexample:
  "response_contains ''session not found''
     (stdout (fst (tmux (scripted [succeeded [''session not found: foo'']])
        [''has-session'', ''-tfoo''] server0)))
   \<and> fst (has_session (scripted [succeeded [''session not found: foo'']]) ''foo'' server0) = True"
proof -
  have "sublist ''session not found'' (''session not found'' @ '': foo'')"
    unfolding sublist_def by (rule exI[of _ "[]"], rule exI[of _ "'': foo''"]) simp
  then show ?thesis
    by (simp add: has_session_def tmux_def response_contains_def scripted_def succeeded_def
        server0_def init_def empty_world_def Let_def)
qed

text \<open>
  C6, amended. \<open>has_session\<close> returns false exactly when one of the output lines of
  the probe is the marker \<open>failed to connect to server\<close> or the marker
  \<open>session not found\<close>, and true otherwise. It always returns a boolean, and its only
  effect is the probe command.
\<close>

theorem has_session_exact_line:
  "fst (has_session gw target s) =
     (''failed to connect to server''
        \<notin> set (stdout (fst (tmux gw [''has-session'', ''-t'' @ target] s)))
      \<and> ''session not found''
        \<notin> set (stdout (fst (tmux gw [''has-session'', ''-t'' @ target] s))))
   \<and> snd (has_session gw target s) = snd (tmux gw [''has-session'', ''-t'' @ target] s)"
  by (simp add: has_session_def tmux_def)

section \<open>Attached clients (C8)\<close>

text \<open>
  C8. \<open>has_clients\<close> returns true if and only if the \<open>list-clients\<close> subcommand reports
  more than one row; its only effect is that command. One row gives false, two rows give
  true.
\<close>

theorem has_clients_threshold:
  "fst (has_clients gw s) = (1 < length (stdout (fst (tmux gw [''list-clients''] s))))
   \<and> snd (has_clients gw s) = snd (tmux gw [''list-clients''] s)
   \<and> fst (has_clients (scripted [succeeded [''/dev/ttys1'']]) server0) = False
   \<and> fst (has_clients (scripted [succeeded [''/dev/ttys1'', ''/dev/ttys2'']]) server0) = True"
  by (simp add: has_clients_def tmux_def proc_len_def scripted_def succeeded_def server0_def
      init_def empty_world_def Let_def)

section \<open>The client refresh as the module stands (C9)\<close>

text \<open>
  C9. In the namespace of the module, \<open>CLIENT_FORMATS\<close> is not bound, so every call of
  \<open>list_clients\<close> raises \<open>NameError\<close> on its first statement and leaves the whole state
  as it was: no command is issued and no client record is read or written. The
  constructor leaves the attribute \<open>_clients\<close> unset.
\<close>

theorem list_clients_always_name_error:
  "list_clients module_globals gw s = (Inl (NameError ''CLIENT_FORMATS''), s)
   \<and> map_of module_globals ''CLIENT_FORMATS'' = None
   \<and> self_clients (init sn sp cf w) = None"
  by (simp add: list_clients_def module_globals_def init_def Let_def)

end
